theory Spec2Isabelle
  imports Complex_Main "HOL-Library.Sublist"
begin

section \<open>Strings\<close>

text \<open>
  Provider names and price strings are Python \<open>str\<close> values. They are modelled as
  \<open>string\<close> (a list of 8-bit characters); \<open>str.lower()\<close> is modelled on the ASCII
  letters, which covers every literal of the calculator (aliases, registry keys, exclusion
  words). The test \<open>a in b\<close> on strings is \<open>sublist a b\<close> (a contiguous run of \<open>b\<close>).
\<close>

definition lower_char :: "char \<Rightarrow> char" where
  "lower_char c =
     (if (65::nat) \<le> of_char c \<and> of_char c \<le> (90::nat)
      then char_of (of_char c + (32::nat)) else c)"

definition lower :: "string \<Rightarrow> string" where
  "lower s = map lower_char s"

section \<open>Provider Normalizer (\<open>calculate_t4_index.py\<close>)\<close>

text \<open>
  \<open>self.provider_aliases\<close>: a dict literal, iterated in insertion order, hence an
  association list in declaration order.
\<close>

definition provider_aliases :: "(string \<times> string) list" where
  "provider_aliases =
     [(''Google Cloud'', ''GCP''),
      (''Google'', ''GCP''),
      (''Amazon Web Services'', ''AWS''),
      (''Alibaba'', ''Alibaba Cloud''),
      (''Tencent'', ''Tencent Cloud''),
      (''Thunder'', ''Thunder Compute'')]"

text \<open>
  The loop of \<open>normalize_provider_name\<close> over an alias table: per entry, first the
  equality test, then the substring test; the first entry passing either test returns.
\<close>

fun normalize_with :: "(string \<times> string) list \<Rightarrow> string \<Rightarrow> string" where
  "normalize_with [] name = name"
| "normalize_with ((alias, standard) # rest) name =
     (if lower name = lower alias then standard
      else if sublist (lower alias) (lower name) then standard
      else normalize_with rest name)"

definition normalize_provider_name :: "string \<Rightarrow> string" where
  "normalize_provider_name name = normalize_with provider_aliases name"

text \<open>
  The normalizer as section 4.1 of the specification words it: the first entry whose alias
  equals the name (ignoring case), else the first entry whose alias is a substring of the
  name (ignoring case), else the name itself.
\<close>

definition spec_normalize :: "(string \<times> string) list \<Rightarrow> string \<Rightarrow> string" where
  "spec_normalize table name =
     (case find (\<lambda>(alias, standard). lower name = lower alias) table of
        Some (alias, standard) \<Rightarrow> standard
      | None \<Rightarrow>
         (case find (\<lambda>(alias, standard). sublist (lower alias) (lower name)) table of
            Some (alias, standard) \<Rightarrow> standard
          | None \<Rightarrow> name))"

section \<open>Numbers and errors\<close>

text \<open>
  Python floats are read in two ways. The quantities that the calculator only stores (the
  per-provider entries of the report, the normalized weights) are exact real numbers: the
  arithmetic is the source's, without the rounding of binary floating point. Wherever the
  code compares, rounds or truncates a float (the rounded fields of the report, the bounds
  of the publish gate, the integer sent to the oracle), the model computes with doubles, as
  defined in the next section. Exceptions are values of type \<open>error\<close>; a function that can
  raise returns \<open>error + 'a\<close>.
\<close>

datatype error = ValueError | ZeroDivisionError

definition py_div :: "real \<Rightarrow> real \<Rightarrow> error + real" where
  "py_div a b = (if b = 0 then Inl ZeroDivisionError else Inr (a / b))"

text \<open>\<open>int(x)\<close> on a float truncates towards zero.\<close>

definition py_int :: "real \<Rightarrow> int" where
  "py_int x = (if 0 \<le> x then \<lfloor>x\<rfloor> else \<lceil>x\<rceil>)"

text \<open>Rounding to the nearest integer, a tie going to the even one.\<close>

definition round_half_even :: "real \<Rightarrow> int" where
  "round_half_even x =
     (let f = \<lfloor>x\<rfloor>; d = x - of_int f in
      if d < 1 / 2 then f
      else if 1 / 2 < d then f + 1
      else if even f then f else f + 1)"

section \<open>Binary floating point\<close>

text \<open>
  A Python float is an IEEE 754 double: a real number \<open>m * 2^e\<close> with an integer \<open>m\<close> of at
  most 53 bits and \<open>e\<close> not below \<open>-1074\<close>. \<open>fl x\<close> is the double nearest to \<open>x\<close>, a tie
  going to the even mantissa: it is the value of a decimal literal, of \<open>float(s)\<close>, and of
  every arithmetic operation applied to the exact result. Results beyond the largest double
  are not turned into infinity; no quantity of the pipeline comes near it.

  \<open>exponent x\<close> is the integer \<open>e\<close> with \<open>2^e \<le> |x| < 2^(e+1)\<close>, found by halving or
  doubling.
\<close>

function floor_log2_up :: "real \<Rightarrow> int" where
  "floor_log2_up x = (if 2 \<le> x then floor_log2_up (x / 2) + 1 else 0)"
  by pat_completeness auto
termination
proof (relation "measure (\<lambda>x. nat \<lfloor>x\<rfloor>)")
  show "wf (measure (\<lambda>x::real. nat \<lfloor>x\<rfloor>))"
    by simp
next
  fix x :: real
  assume a: "2 \<le> x"
  have "\<lfloor>x / 2\<rfloor> < \<lfloor>x\<rfloor>" and "0 < \<lfloor>x\<rfloor>"
    using a by linarith+
  then show "(x / 2, x) \<in> measure (\<lambda>x. nat \<lfloor>x\<rfloor>)"
    by simp
qed

function floor_log2_down :: "real \<Rightarrow> int" where
  "floor_log2_down x = (if 0 < x \<and> x < 1 / 2 then floor_log2_down (2 * x) - 1 else - 1)"
  by pat_completeness auto
termination
proof (relation "measure (\<lambda>x. nat \<lfloor>1 / x\<rfloor>)")
  show "wf (measure (\<lambda>x::real. nat \<lfloor>1 / x\<rfloor>))"
    by simp
next
  fix x :: real
  assume a: "0 < x \<and> x < 1 / 2"
  define y where "y = 1 / x"
  have b: "2 < y"
    using a by (simp add: y_def field_simps)
  have e: "1 / (2 * x) = y / 2"
    by (simp add: y_def)
  have "\<lfloor>y / 2\<rfloor> < \<lfloor>y\<rfloor>" and "0 < \<lfloor>y\<rfloor>"
    using b by linarith+
  then have "nat \<lfloor>1 / (2 * x)\<rfloor> < nat \<lfloor>1 / x\<rfloor>"
    unfolding e y_def [symmetric] by linarith
  then show "(2 * x, x) \<in> measure (\<lambda>x. nat \<lfloor>1 / x\<rfloor>)"
    by (simp only: in_measure)
qed

definition exponent :: "real \<Rightarrow> int" where
  "exponent x = (if 1 \<le> \<bar>x\<bar> then floor_log2_up \<bar>x\<bar> else floor_log2_down \<bar>x\<bar>)"

definition pow2 :: "int \<Rightarrow> real" where
  "pow2 k = (if 0 \<le> k then 2 ^ nat k else 1 / 2 ^ nat (- k))"

text \<open>
  The spacing of the doubles around \<open>x\<close> is \<open>2^(e - 52)\<close>, and \<open>2^(-1074)\<close> below
  \<open>2^(-1022)\<close>; \<open>fl x\<close> is the nearest multiple of the spacing.
\<close>

definition fl :: "real \<Rightarrow> real" where
  "fl x =
     (if x = 0 then 0
      else (let ulp = pow2 (max (exponent x) (- 1022) - 52)
            in of_int (round_half_even (x / ulp)) * ulp))"

definition fadd :: "real \<Rightarrow> real \<Rightarrow> real" where
  "fadd a b = fl (a + b)"

definition fsub :: "real \<Rightarrow> real \<Rightarrow> real" where
  "fsub a b = fl (a - b)"

definition fmul :: "real \<Rightarrow> real \<Rightarrow> real" where
  "fmul a b = fl (a * b)"

definition py_div_f :: "real \<Rightarrow> real \<Rightarrow> error + real" where
  "py_div_f a b = (if b = 0 then Inl ZeroDivisionError else Inr (fl (a / b)))"

text \<open>
  \<open>round(x, n)\<close> on a float: the exact value of \<open>x\<close> is rounded to \<open>n\<close> decimals, a tie
  going to the even digit, and the decimal result is read back as a double.
\<close>

definition py_round_f :: "real \<Rightarrow> nat \<Rightarrow> real" where
  "py_round_f x n = fl (of_int (round_half_even (x * 10 ^ n)) / 10 ^ n)"

section \<open>Dictionaries\<close>

text \<open>
  A \<open>dict\<close> keeps its keys in insertion order; assigning to a key that is present replaces
  the value in place. \<open>d.get(k)\<close> is \<open>map_of d k\<close>, \<open>d.get(k, dflt)\<close> is \<open>dict_get d k dflt\<close>.
\<close>

fun dict_set :: "('k \<times> 'v) list \<Rightarrow> 'k \<Rightarrow> 'v \<Rightarrow> ('k \<times> 'v) list" where
  "dict_set [] k v = [(k, v)]"
| "dict_set ((k', v') # rest) k v =
     (if k' = k then (k, v) # rest else (k', v') # dict_set rest k v)"

definition dict_get :: "('k \<times> 'v) list \<Rightarrow> 'k \<Rightarrow> 'v \<Rightarrow> 'v" where
  "dict_get d k dflt = (case map_of d k of Some v \<Rightarrow> v | None \<Rightarrow> dflt)"

type_synonym prices = "(string \<times> real) list"

section \<open>Observation Loader (\<open>calculate_t4_index.py\<close>)\<close>

subsection \<open>\<open>_parse_price\<close>\<close>

text \<open>
  \<open>re.search(r'([0-9.]+)', price_str)\<close>: the leftmost, longest run of characters of the
  class \<open>[0-9.]\<close>, or no match.
\<close>

definition is_digit :: "char \<Rightarrow> bool" where
  "is_digit c = ((48::nat) \<le> of_char c \<and> of_char c \<le> (57::nat))"

definition in_class :: "char \<Rightarrow> bool" where
  "in_class c = (is_digit c \<or> c = CHR ''.'')"

definition re_search :: "string \<Rightarrow> string option" where
  "re_search price_str =
     (case dropWhile (\<lambda>c. \<not> in_class c) price_str of
        [] \<Rightarrow> None
      | c # cs \<Rightarrow> Some (takeWhile in_class (c # cs)))"

text \<open>
  \<open>float(token)\<close> for a token of digits and dots: digits, optionally one dot, digits, with
  a digit on at least one side; anything else raises \<open>ValueError\<close>.
\<close>

definition digits_val :: "string \<Rightarrow> nat" where
  "digits_val ds = foldl (\<lambda>acc c. 10 * acc + (of_char c - 48)) 0 ds"

definition py_float :: "string \<Rightarrow> error + real" where
  "py_float tok =
     (let ip = takeWhile is_digit tok; rest = dropWhile is_digit tok in
      case rest of
        [] \<Rightarrow> if ip = [] then Inl ValueError else Inr (real (digits_val ip))
      | c # fp \<Rightarrow>
          if c = CHR ''.'' \<and> list_all is_digit fp \<and> (ip \<noteq> [] \<or> fp \<noteq> [])
          then Inr (real (digits_val ip) + real (digits_val fp) / 10 ^ length fp)
          else Inl ValueError)"

definition parse_price :: "string \<Rightarrow> error + real" where
  "parse_price price_str =
     (case re_search price_str of
        Some tok \<Rightarrow> py_float tok
      | None \<Rightarrow> Inr 0.0)"

subsection \<open>\<open>load_prices\<close>: the combined file\<close>

text \<open>
  The combined file is absent, unreadable (opening or decoding raises), without a
  \<open>"prices"\<close> object, or carries the entries of \<open>data["prices"]\<close> in file order, each value
  already passed through \<open>str\<close>.
\<close>

datatype combined_file =
  Missing | Unreadable | NoPrices | Prices "(string \<times> string) list"

text \<open>
  The \<open>for\<close> loop of \<open>load_prices\<close> runs inside one \<open>try\<close>: an exception of
  \<open>_parse_price\<close> ends the loop, is printed, and leaves \<open>prices\<close> as filled so far. The
  second component is the exception printed, if any.
\<close>

fun load_combined :: "(string \<times> string) list \<Rightarrow> prices \<Rightarrow> prices \<times> error option" where
  "load_combined [] prices = (prices, None)"
| "load_combined ((provider, price_val) # rest) prices =
     (case parse_price price_val of
        Inl e \<Rightarrow> (prices, Some e)
      | Inr price \<Rightarrow>
          if price > 0
          then load_combined rest (dict_set prices (normalize_provider_name provider) price)
          else load_combined rest prices)"

subsection \<open>\<open>load_from_individual_files\<close>\<close>

text \<open>
  One per-source file: its name, the provider name derived from the file stem (the default
  of \<open>data.get("provider", ...)\<close>), and its content: undecodable, or the optional
  \<open>"provider"\<close> and \<open>"prices"\<close> members.
\<close>

datatype file_content =
  BadJson | Json "string option" "(string \<times> string) list option"

record price_file =
  file_name :: string
  stem_title :: string
  content :: file_content

text \<open>The inner loop: \<open>price\<close> is the first parsed value above zero, else the last parsed.\<close>

fun first_price :: "real \<Rightarrow> string list \<Rightarrow> error + real" where
  "first_price price [] = Inr price"
| "first_price price (p_str # rest) =
     (case parse_price p_str of
        Inl e \<Rightarrow> Inl e
      | Inr price' \<Rightarrow> if price' > 0 then Inr price' else first_price price' rest)"

text \<open>One iteration of the loop over files; every exception skips the file.\<close>

definition load_file :: "prices \<Rightarrow> price_file \<Rightarrow> prices" where
  "load_file prices f =
     (if sublist ''combined'' (file_name f) \<or> sublist ''getdeploying'' (file_name f)
      then prices
      else case content f of
        BadJson \<Rightarrow> prices
      | Json provider_member prices_member \<Rightarrow>
          (let provider = normalize_provider_name
                 (case provider_member of Some p \<Rightarrow> p | None \<Rightarrow> stem_title f)
           in case (case prices_member of
                      Some entries \<Rightarrow> first_price 0.0 (map snd entries)
                    | None \<Rightarrow> Inr 0.0) of
                Inl e \<Rightarrow> prices
              | Inr price \<Rightarrow> if price > 0 then dict_set prices provider price else prices))"

definition load_from_individual_files :: "price_file list \<Rightarrow> prices" where
  "load_from_individual_files files = foldl load_file [] files"

subsection \<open>\<open>load_prices\<close>\<close>

definition load_prices :: "combined_file \<Rightarrow> price_file list \<Rightarrow> prices" where
  "load_prices combined files =
     (let prices = (case combined of
                      Prices entries \<Rightarrow> fst (load_combined entries [])
                    | _ \<Rightarrow> [])
      in if prices = [] then load_from_individual_files files else prices)"

section \<open>Weighted Index Calculator (\<open>calculate_t4_index.py\<close>)\<close>

subsection \<open>Configuration of \<open>__init__\<close>\<close>

definition hyperscalers :: "string list" where
  "hyperscalers = [''AWS'', ''Azure'', ''GCP'']"

definition hyperscaler_discounts :: "(string \<times> real) list" where
  "hyperscaler_discounts = [(''AWS'', 0.44), (''Azure'', 0.65), (''GCP'', 0.65)]"

definition discounted_weight :: real where
  "discounted_weight = 0.80"

definition full_price_weight :: real where
  "full_price_weight = 0.20"

definition hyperscaler_total_weight :: real where
  "hyperscaler_total_weight = 0.65"

definition neocloud_total_weight :: real where
  "neocloud_total_weight = 0.35"

definition hyperscaler_weights :: "(string \<times> real) list" where
  "hyperscaler_weights = [(''AWS'', 0.45), (''Azure'', 0.30), (''GCP'', 0.25)]"

definition neocloud_weights :: "(string \<times> real) list" where
  "neocloud_weights =
     [(''Alibaba Cloud'', 0.15),
      (''Tencent Cloud'', 0.15),
      (''Vast.ai'', 0.15),
      (''Paperspace'', 0.15),
      (''Replicate'', 0.10),
      (''Thunder Compute'', 0.10),
      (''Cerebrium'', 0.10),
      (''NeevCloud'', 0.10),
      (''default'', 0.05)]"

subsection \<open>Hyperscaler component\<close>

text \<open>The entry stored under \<open>hyperscaler_data[hs]\<close>, and the loop's state.\<close>

record hs_entry =
  hs_original :: real
  hs_discounted :: real
  hs_effective :: real
  hs_weight :: real
  hs_contribution :: real

record hs_state =
  hs_weighted_sum :: real
  hs_weight_used :: real
  hyperscaler_data :: "(string \<times> hs_entry) list"

text \<open>\<open>not price\<close> holds for \<open>None\<close> and for \<open>0.0\<close>.\<close>

definition truthy :: "real option \<Rightarrow> bool" where
  "truthy price = (case price of None \<Rightarrow> False | Some v \<Rightarrow> v \<noteq> 0)"

text \<open>
  The price of a hyperscaler: \<open>prices.get(norm_hs)\<close>, and when that is missing or zero, the
  value of the first key that contains the name, ignoring case.
\<close>

definition find_price :: "prices \<Rightarrow> string \<Rightarrow> real option" where
  "find_price prices norm_hs =
     (let price = map_of prices norm_hs in
      if \<not> truthy price
      then (case find (\<lambda>(k, v). sublist (lower norm_hs) (lower k)) prices of
              Some (k, v) \<Rightarrow> Some v
            | None \<Rightarrow> price)
      else price)"

definition hs_step :: "prices \<Rightarrow> hs_state \<Rightarrow> string \<Rightarrow> hs_state" where
  "hs_step prices st hs =
     (let norm_hs = normalize_provider_name hs in
      case find_price prices norm_hs of
        None \<Rightarrow> st
      | Some price \<Rightarrow>
          if price = 0 then st
          else
            (let discount = dict_get hyperscaler_discounts hs 0.30;
                 disc_price = price * (1 - discount);
                 effective_price = disc_price * discounted_weight + price * full_price_weight;
                 weight = dict_get hyperscaler_weights hs 0.0;
                 contribution = effective_price * weight * hyperscaler_total_weight
             in \<lparr>hs_weighted_sum = hs_weighted_sum st + contribution,
                 hs_weight_used = hs_weight_used st + weight,
                 hyperscaler_data = dict_set (hyperscaler_data st) hs
                   \<lparr>hs_original = price, hs_discounted = disc_price,
                    hs_effective = effective_price, hs_weight = weight,
                    hs_contribution = contribution\<rparr>\<rparr>))"

definition hs_loop :: "prices \<Rightarrow> string list \<Rightarrow> hs_state" where
  "hs_loop prices hss =
     foldl (hs_step prices)
       \<lparr>hs_weighted_sum = 0, hs_weight_used = 0, hyperscaler_data = []\<rparr> hss"


subsection \<open>Neocloud component\<close>

record nc_entry =
  nc_price :: real
  nc_raw_weight :: real

record nc_state =
  nc_weight_used :: real
  neocloud_data :: "(string \<times> nc_entry) list"

text \<open>One line printed by the redistribution loop: provider, normalized weight, contribution.\<close>

record nc_line =
  line_provider :: string
  line_norm_weight :: real
  line_contribution :: real

definition is_hs :: "string \<Rightarrow> bool" where
  "is_hs p = list_ex (\<lambda>hs. normalize_provider_name hs = p) hyperscalers"

definition nc_providers :: "prices \<Rightarrow> prices" where
  "nc_providers prices =
     filter (\<lambda>(p, price). \<not> is_hs p \<and> \<not> sublist ''GetDeploying'' p \<and> \<not> sublist ''Average'' p)
       prices"

definition weight_key :: "string \<Rightarrow> string" where
  "weight_key p =
     (case find (\<lambda>k. sublist (lower k) (lower p)) (map fst neocloud_weights) of
        Some k \<Rightarrow> k
      | None \<Rightarrow> ''default'')"

definition nc_step :: "nc_state \<Rightarrow> string \<times> real \<Rightarrow> nc_state" where
  "nc_step st = (\<lambda>(p, price).
     let w_key = weight_key p;
         raw_weight = dict_get neocloud_weights w_key 0.10
     in \<lparr>nc_weight_used = nc_weight_used st + raw_weight,
         neocloud_data = dict_set (neocloud_data st) p
           \<lparr>nc_price = price, nc_raw_weight = raw_weight\<rparr>\<rparr>)"

definition nc_collect :: "prices \<Rightarrow> nc_state" where
  "nc_collect providers = foldl nc_step \<lparr>nc_weight_used = 0, neocloud_data = []\<rparr> providers"

text \<open>
  The loop over \<open>neocloud_data.items()\<close>, run when \<open>nc_weight_used > 0\<close>; the accumulator is
  \<open>nc_weighted_sum\<close> with the lines printed so far.
\<close>

fun redistribute ::
  "real \<Rightarrow> (string \<times> nc_entry) list \<Rightarrow> real \<times> nc_line list \<Rightarrow> error + real \<times> nc_line list"
where
  "redistribute weight_used [] acc = Inr acc"
| "redistribute weight_used ((p, d) # rest) (weighted_sum, printed) =
     (case py_div (nc_raw_weight d) weight_used of
        Inl e \<Rightarrow> Inl e
      | Inr norm_weight \<Rightarrow>
          (let contribution = nc_price d * norm_weight * neocloud_total_weight
           in redistribute weight_used rest
                (weighted_sum + contribution,
                 printed @ [\<lparr>line_provider = p, line_norm_weight = norm_weight,
                             line_contribution = contribution\<rparr>])))"

definition nc_component :: "nc_state \<Rightarrow> error + real \<times> nc_line list" where
  "nc_component st =
     (if nc_weight_used st > 0
      then redistribute (nc_weight_used st) (neocloud_data st) (0, [])
      else Inr (0, []))"

subsection \<open>The two sums in binary floating point\<close>

text \<open>
  The rounded fields of the report depend on the doubles that the loops accumulate. The
  definitions of this subsection repeat the arithmetic of the two components on doubles:
  every price, weight and literal is read as its nearest double, and every operation
  rounds its result. The state of the hyperscaler loop is the pair \<open>hs_weighted_sum\<close>,
  \<open>hs_weight_used\<close>.
\<close>

definition hs_step_f :: "prices \<Rightarrow> real \<times> real \<Rightarrow> string \<Rightarrow> real \<times> real" where
  "hs_step_f prices = (\<lambda>(weighted_sum, weight_used) hs.
     let norm_hs = normalize_provider_name hs in
     case find_price prices norm_hs of
       None \<Rightarrow> (weighted_sum, weight_used)
     | Some p \<Rightarrow>
         if p = 0 then (weighted_sum, weight_used)
         else
           (let price = fl p;
                discount = fl (dict_get hyperscaler_discounts hs 0.30);
                disc_price = fmul price (fsub 1 discount);
                effective_price =
                  fadd (fmul disc_price (fl discounted_weight))
                       (fmul price (fl full_price_weight));
                weight = fl (dict_get hyperscaler_weights hs 0.0);
                contribution = fmul (fmul effective_price weight) (fl hyperscaler_total_weight)
            in (fadd weighted_sum contribution, fadd weight_used weight)))"

definition hs_sums_f :: "prices \<Rightarrow> string list \<Rightarrow> real \<times> real" where
  "hs_sums_f prices hss = foldl (hs_step_f prices) (0, 0) hss"

definition normalize_hs_sum_f :: "real \<Rightarrow> real \<Rightarrow> error + real" where
  "normalize_hs_sum_f weighted_sum weight_used =
     (if 0 < weight_used \<and> weight_used < 1.0
      then (case py_div_f 1.0 weight_used of
              Inl e \<Rightarrow> Inl e
            | Inr factor \<Rightarrow> Inr (fmul weighted_sum factor))
      else Inr weighted_sum)"

text \<open>\<open>nc_weight_used\<close> as accumulated by the loop over \<open>nc_providers\<close>.\<close>

definition nc_weight_used_f :: "prices \<Rightarrow> real" where
  "nc_weight_used_f providers =
     foldl (\<lambda>weight_used (p, price).
              fadd weight_used (fl (dict_get neocloud_weights (weight_key p) 0.10)))
       0 providers"

text \<open>The redistribution loop over \<open>neocloud_data.items()\<close>; the accumulator is \<open>nc_weighted_sum\<close>.\<close>

fun redistribute_f :: "real \<Rightarrow> (string \<times> nc_entry) list \<Rightarrow> real \<Rightarrow> error + real" where
  "redistribute_f weight_used [] weighted_sum = Inr weighted_sum"
| "redistribute_f weight_used ((p, d) # rest) weighted_sum =
     (case py_div_f (fl (nc_raw_weight d)) weight_used of
        Inl e \<Rightarrow> Inl e
      | Inr norm_weight \<Rightarrow>
          (let contribution =
                 fmul (fmul (fl (nc_price d)) norm_weight) (fl neocloud_total_weight)
           in redistribute_f weight_used rest (fadd weighted_sum contribution)))"

definition nc_sum_f :: "prices \<Rightarrow> error + real" where
  "nc_sum_f providers =
     (let weight_used = nc_weight_used_f providers in
      if weight_used > 0
      then redistribute_f weight_used (neocloud_data (nc_collect providers)) 0
      else Inr 0)"

subsection \<open>The report and \<open>calculate_index\<close>\<close>

record report =
  timestamp :: string
  final_index_price :: real
  component_hyperscaler :: real
  component_neocloud :: real
  details_hyperscalers :: "(string \<times> hs_entry) list"
  details_neoclouds :: "(string \<times> nc_entry) list"

text \<open>
  The body of \<open>calculate_index\<close> after the prices are loaded and found non-empty; \<open>now\<close> is
  the formatted clock reading. The result is the report written to
  \<open>t4_weighted_index.json\<close>. The three rounded fields are computed from the sums in binary
  floating point; the per-provider details are the entries of the two loops.
\<close>

definition compute_report :: "string \<Rightarrow> prices \<Rightarrow> error + report" where
  "compute_report now prices =
     (case hs_sums_f prices hyperscalers of
        (hs_weighted_sum_f, hs_weight_used_f) \<Rightarrow>
          (case normalize_hs_sum_f hs_weighted_sum_f hs_weight_used_f of
             Inl e \<Rightarrow> Inl e
           | Inr hs_sum \<Rightarrow>
               (case nc_sum_f (nc_providers prices) of
                  Inl e \<Rightarrow> Inl e
                | Inr nc_sum \<Rightarrow>
                    (let final_index = fadd hs_sum nc_sum
                     in Inr \<lparr>timestamp = now,
                             final_index_price = py_round_f final_index 2,
                             component_hyperscaler = py_round_f hs_sum 4,
                             component_neocloud = py_round_f nc_sum 4,
                             details_hyperscalers =
                               hyperscaler_data (hs_loop prices hyperscalers),
                             details_neoclouds =
                               neocloud_data (nc_collect (nc_providers prices))\<rparr>))))"

text \<open>
  \<open>calculate_index\<close>: \<open>None\<close> is the early \<open>return\<close> after "No pricing data found", with
  no report written; \<open>Some r\<close> is the report written.
\<close>

definition calculate_index ::
  "string \<Rightarrow> combined_file \<Rightarrow> price_file list \<Rightarrow> error + report option"
where
  "calculate_index now combined files =
     (let prices = load_prices combined files in
      if prices = [] then Inr None
      else (case compute_report now prices of
              Inl e \<Rightarrow> Inl e
            | Inr r \<Rightarrow> Inr (Some r)))"

section \<open>Publish Gate and durable sink (\<open>push_t4_to_supabase.py\<close>)\<close>

text \<open>
  The durable store holds two tables. \<open>t4_index_prices\<close> is kept newest first, so that the
  query ordered by \<open>created_at\<close> descending with limit 1 is \<open>take 1\<close>.
\<close>

record index_row =
  row_timestamp :: string
  index_price :: real
  hyperscaler_component :: real
  neocloud_component :: real
  metadata_hyperscalers :: "(string \<times> hs_entry) list"
  metadata_neoclouds :: "(string \<times> nc_entry) list"

datatype provider_type = Hyperscaler | Neocloud

record provider_row =
  index_id :: nat
  provider_timestamp :: string
  provider_name :: string
  provider_kind :: provider_type
  original_price :: real
  effective_price :: real
  discount_rate :: real
  relative_weight :: real
  absolute_weight :: real
  weighted_contribution :: real

record db =
  t4_index_prices :: "index_row list"
  t4_provider_prices :: "provider_row list"

text \<open>
  What the surroundings decide in one run: whether the credentials are set, the client
  library imports, the client is created and the query answers without raising, what the
  insert of the index record does (raises, answers without data, or stores the row and
  answers its id), and whether the insert of the provider records goes through.
\<close>

datatype insert_outcome = InsertRaises | InsertNoData | Inserted nat

record sink_env =
  credentials :: bool
  library :: bool
  client_ok :: bool
  select_ok :: bool
  insert_index :: insert_outcome
  insert_providers_ok :: bool

text \<open>
  Step 0 of \<open>push_to_supabase\<close>: the check of the new price against the previous entry.
  \<open>False\<close> is "Push ABORTED". The previous price is \<open>float(...)\<close> of the stored value and
  the two bounds are products of doubles; the new price is the number read from the report.
\<close>

definition validate_price :: "real \<Rightarrow> index_row list \<Rightarrow> bool" where
  "validate_price new_price response_data =
     (case response_data of
        [] \<Rightarrow> True
      | row # _ \<Rightarrow>
          (let prev_price = fl (index_price row);
               lower_bound = fmul prev_price (fl 0.80);
               upper_bound = fmul prev_price (fl 1.20)
           in if \<not> (lower_bound \<le> new_price \<and> new_price \<le> upper_bound) then False
              else True))"

definition hyperscaler_record :: "nat \<Rightarrow> string \<Rightarrow> string \<times> hs_entry \<Rightarrow> provider_row" where
  "hyperscaler_record idx ts = (\<lambda>(name, d).
     \<lparr>index_id = idx, provider_timestamp = ts, provider_name = name,
      provider_kind = Hyperscaler,
      original_price = hs_original d,
      effective_price = hs_effective d,
      discount_rate =
        (if hs_original d \<noteq> 0 then (hs_original d - hs_discounted d) / hs_original d else 0),
      relative_weight = hs_weight d,
      absolute_weight = hs_weight d * 0.65,
      weighted_contribution = hs_contribution d\<rparr>)"

definition neocloud_record :: "nat \<Rightarrow> string \<Rightarrow> string \<times> nc_entry \<Rightarrow> provider_row" where
  "neocloud_record idx ts = (\<lambda>(name, d).
     \<lparr>index_id = idx, provider_timestamp = ts, provider_name = name,
      provider_kind = Neocloud,
      original_price = nc_price d,
      effective_price = nc_price d,
      discount_rate = 0,
      relative_weight = nc_raw_weight d,
      absolute_weight = nc_raw_weight d * 0.35,
      weighted_contribution = 0\<rparr>)"

text \<open>
  \<open>push_to_supabase\<close>: the result is the boolean returned and the store afterwards. Every
  exception inside the \<open>try\<close> returns \<open>False\<close>.
\<close>

definition push_to_supabase :: "sink_env \<Rightarrow> db \<Rightarrow> report \<Rightarrow> bool \<times> db" where
  "push_to_supabase env store index_data =
     (if \<not> credentials env then (False, store)
      else if \<not> library env then (False, store)
      else if \<not> client_ok env then (False, store)
      else
        (let new_price = final_index_price index_data in
         if \<not> select_ok env then (False, store)
         else if \<not> validate_price new_price (take 1 (t4_index_prices store))
         then (False, store)
         else
           (let insert_data =
                  \<lparr>row_timestamp = timestamp index_data,
                   index_price = new_price,
                   hyperscaler_component = component_hyperscaler index_data,
                   neocloud_component = component_neocloud index_data,
                   metadata_hyperscalers = details_hyperscalers index_data,
                   metadata_neoclouds = details_neoclouds index_data\<rparr>
            in case insert_index env of
                 InsertRaises \<Rightarrow> (False, store)
               | InsertNoData \<Rightarrow> (False, store)
               | Inserted idx \<Rightarrow>
                   (let store1 = store\<lparr>t4_index_prices := insert_data # t4_index_prices store\<rparr>;
                        provider_records =
                          map (hyperscaler_record idx (row_timestamp insert_data))
                            (details_hyperscalers index_data) @
                          map (neocloud_record idx (row_timestamp insert_data))
                            (details_neoclouds index_data)
                    in if provider_records \<noteq> []
                       then (if insert_providers_ok env
                             then (True, store1\<lparr>t4_provider_prices :=
                                           t4_provider_prices store1 @ provider_records\<rparr>)
                             else (False, store1))
                       else (True, store1)))))"

section \<open>On-chain oracle adapter (\<open>push_to_contract.py\<close>)\<close>

definition PRICE_DECIMALS :: nat where
  "PRICE_DECIMALS = 18"



text \<open>
  The first statement of \<open>update_price\<close>: the integer submitted to the oracle. The integer
  \<open>10**18\<close> is converted to a double and the product of the two doubles is rounded before
  \<open>int\<close> truncates it.
\<close>

definition price_scaled :: "real \<Rightarrow> int" where
  "price_scaled price_usd = py_int (fmul price_usd (fl (10 ^ PRICE_DECIMALS)))"

text \<open>
  The path of \<open>main\<close> from its price source to the update. \<open>args_price\<close> is the value of
  \<open>--price\<close> when given; \<open>csv_price\<close> is the price cell of the last row of the CSV file,
  \<open>None\<close> when the file, the row or the column is missing or the cell is no number. Both
  are read by \<open>float\<close>. The result is the integer handed to \<open>updatePrice\<close>, or \<open>None\<close> when
  \<open>main\<close> exits with status 1 before the update (no price, or a price not above zero).
  Neither the report of the calculator nor a previous price is read on this path.
\<close>

definition main_submitted :: "real option \<Rightarrow> real option \<Rightarrow> int option" where
  "main_submitted args_price csv_price =
     (case (case args_price of
              Some a \<Rightarrow> Some (fl a)
            | None \<Rightarrow> (case csv_price of Some c \<Rightarrow> Some (fl c) | None \<Rightarrow> None)) of
        None \<Rightarrow> None
      | Some price \<Rightarrow> if price \<le> 0 then None else Some (price_scaled price))"

section \<open>Example surroundings\<close>

text \<open>
  A store client for which every call goes through, and a store whose newest index row
  carries a given previous price; used to run \<open>push_to_supabase\<close> on concrete inputs.
\<close>

definition healthy_env :: sink_env where
  "healthy_env =
     \<lparr>credentials = True, library = True, client_ok = True, select_ok = True,
      insert_index = Inserted 7, insert_providers_ok = True\<rparr>"

definition store_with_previous :: "real \<Rightarrow> db" where
  "store_with_previous prev =
     \<lparr>t4_index_prices =
        [\<lparr>row_timestamp = ''2026-01-01 00:00:00'', index_price = prev,
          hyperscaler_component = 0.40, neocloud_component = 0.10,
          metadata_hyperscalers = [], metadata_neoclouds = []\<rparr>],
      t4_provider_prices = []\<rparr>"

section \<open>Properties of the Provider Normalizer\<close>

lemma lower_aliases:
  "lower ''Google Cloud'' = ''google cloud''"
  "lower ''Google'' = ''google''"
  "lower ''Amazon Web Services'' = ''amazon web services''"
  "lower ''Alibaba'' = ''alibaba''"
  "lower ''Tencent'' = ''tencent''"
  "lower ''Thunder'' = ''thunder''"
  by code_simp+

text \<open>
  Equality implies containment, so over any table the loop returns at the first entry whose
  alias is contained in the name.
\<close>

lemma normalize_with_first_contained:
  "normalize_with table name =
     (case find (\<lambda>(alias, standard). sublist (lower alias) (lower name)) table of
        Some (alias, standard) \<Rightarrow> standard
      | None \<Rightarrow> name)"
  by (induction table name rule: normalize_with.induct) auto

lemma normalize_hyperscaler_names:
  "normalize_provider_name ''AWS'' = ''AWS''"
  "normalize_provider_name ''Azure'' = ''Azure''"
  "normalize_provider_name ''GCP'' = ''GCP''"
  by code_simp+

text \<open>
  Claim C8. For every raw provider name, \<open>normalize_provider_name\<close> returns the canonical
  value of the first entry of the alias table whose alias equals the name ignoring case,
  else of the first entry whose alias is a substring of the name ignoring case (the
  earliest-declared entry winning), and the raw name unchanged when no entry matches: on
  the alias table of the source, the loop of the code and the two-stage search of the
  specification return the same value.
\<close>

theorem normalize_provider_name_spec:
  "normalize_provider_name name = spec_normalize provider_aliases name"
  unfolding normalize_provider_name_def normalize_with_first_contained
  unfolding spec_normalize_def provider_aliases_def
  by (auto simp: lower_aliases sublist_code split: option.splits)

section \<open>Properties of the dictionaries\<close>

lemma map_of_dict_set: "map_of (dict_set d k v) = (map_of d)(k \<mapsto> v)"
  by (induction d k v rule: dict_set.induct) auto

section \<open>Properties of the hyperscaler component\<close>

lemma distinct_hyperscalers: "distinct hyperscalers"
  by (simp add: hyperscalers_def)

lemma hs_step_other:
  "hs' \<noteq> hs \<Longrightarrow>
   map_of (hyperscaler_data (hs_step prices st hs')) hs = map_of (hyperscaler_data st) hs"
  by (simp add: hs_step_def Let_def map_of_dict_set split: option.splits)

lemma hs_foldl_other:
  "hs \<notin> set hss \<Longrightarrow>
   map_of (hyperscaler_data (foldl (hs_step prices) st hss)) hs = map_of (hyperscaler_data st) hs"
  by (induction hss arbitrary: st) (auto simp: hs_step_other)

lemma hs_step_same:
  "find_price prices (normalize_provider_name hs) = Some p \<Longrightarrow> p \<noteq> 0 \<Longrightarrow>
   map_of (hyperscaler_data (hs_step prices st hs)) hs =
     Some \<lparr>hs_original = p,
           hs_discounted = p * (1 - dict_get hyperscaler_discounts hs 0.30),
           hs_effective = p * (1 - dict_get hyperscaler_discounts hs 0.30) * discounted_weight
                            + p * full_price_weight,
           hs_weight = dict_get hyperscaler_weights hs 0.0,
           hs_contribution =
             (p * (1 - dict_get hyperscaler_discounts hs 0.30) * discounted_weight
                + p * full_price_weight)
             * dict_get hyperscaler_weights hs 0.0 * hyperscaler_total_weight\<rparr>"
  by (simp add: hs_step_def Let_def map_of_dict_set)

text \<open>
  A hyperscaler with a usable price keeps, to the end of the loop, the entry written in its
  own iteration: the names of the loop are distinct.
\<close>

lemma hs_foldl_entry:
  "distinct hss \<Longrightarrow> hs \<in> set hss \<Longrightarrow>
   find_price prices (normalize_provider_name hs) = Some p \<Longrightarrow> p \<noteq> 0 \<Longrightarrow>
   map_of (hyperscaler_data (foldl (hs_step prices) st hss)) hs =
     Some \<lparr>hs_original = p,
           hs_discounted = p * (1 - dict_get hyperscaler_discounts hs 0.30),
           hs_effective = p * (1 - dict_get hyperscaler_discounts hs 0.30) * discounted_weight
                            + p * full_price_weight,
           hs_weight = dict_get hyperscaler_weights hs 0.0,
           hs_contribution =
             (p * (1 - dict_get hyperscaler_discounts hs 0.30) * discounted_weight
                + p * full_price_weight)
             * dict_get hyperscaler_weights hs 0.0 * hyperscaler_total_weight\<rparr>"
proof (induction hss arbitrary: st)
  case Nil
  then show ?case by simp
next
  case (Cons h hss)
  show ?case
  proof (cases "h = hs")
    case True
    with Cons.prems have "hs \<notin> set hss" by simp
    then show ?thesis
      using True Cons.prems(3,4) by (simp add: hs_foldl_other hs_step_same)
  next
    case False
    with Cons.prems have "hs \<in> set hss" "distinct hss" by auto
    then show ?thesis
      using Cons.IH Cons.prems(3,4) by simp
  qed
qed

section \<open>The calculator raises no exception\<close>


lemma redistribute_total:
  "w \<noteq> 0 \<Longrightarrow>
   redistribute w items (s, printed) =
     Inr (s + sum_list (map (\<lambda>(p, d). nc_price d * (nc_raw_weight d / w) * neocloud_total_weight)
                items),
          printed @ map (\<lambda>(p, d). \<lparr>line_provider = p, line_norm_weight = nc_raw_weight d / w,
                 line_contribution = nc_price d * (nc_raw_weight d / w) * neocloud_total_weight\<rparr>)
                items)"
  by (induction items arbitrary: s printed) (auto simp: py_div_def Let_def)

lemma nc_component_total: "\<exists>v. nc_component st = Inr v"
  by (simp add: nc_component_def redistribute_total)

lemma normalize_hs_sum_f_total: "\<exists>v. normalize_hs_sum_f s w = Inr v"
  by (simp add: normalize_hs_sum_f_def py_div_f_def)

lemma redistribute_f_total: "w \<noteq> 0 \<Longrightarrow> \<exists>v. redistribute_f w items s = Inr v"
  by (induction items arbitrary: s) (auto simp: py_div_f_def Let_def)

lemma nc_sum_f_total: "\<exists>v. nc_sum_f providers = Inr v"
  by (simp add: nc_sum_f_def Let_def redistribute_f_total)

lemma compute_report_total: "\<exists>r. compute_report now prices = Inr r"
proof -
  obtain ws wu where h: "hs_sums_f prices hyperscalers = (ws, wu)"
    by (cases "hs_sums_f prices hyperscalers")
  obtain v where v: "normalize_hs_sum_f ws wu = Inr v"
    using normalize_hs_sum_f_total by blast
  obtain c where n: "nc_sum_f (nc_providers prices) = Inr c"
    using nc_sum_f_total by blast
  show ?thesis
    by (simp add: compute_report_def Let_def h v n)
qed

lemma compute_report_details:
  "compute_report now prices = Inr r \<Longrightarrow>
   details_hyperscalers r = hyperscaler_data (hs_loop prices hyperscalers)
   \<and> details_neoclouds r = neocloud_data (nc_collect (nc_providers prices))"
  by (auto simp: compute_report_def Let_def split: prod.splits sum.splits)

section \<open>The discount blend\<close>

text \<open>
  Claim C3. For every hyperscaler of the registry with an observed price \<open>p\<close> (found and
  not zero) and discount rate \<open>d\<close>, the calculator returns a report whose entry for that
  hyperscaler has original price \<open>p\<close> and effective price \<open>p*(1-d)*0.80 + p*0.20\<close>; for
  AWS, whose discount is 0.44, an observed price of 1.00 gives the effective price 0.648.
\<close>

theorem effective_price_blend:
  "(hs \<in> set hyperscalers \<and> find_price prices (normalize_provider_name hs) = Some p \<and> p \<noteq> 0
      \<longrightarrow> (\<exists>r e. compute_report now prices = Inr r
            \<and> map_of (details_hyperscalers r) hs = Some e
            \<and> hs_original e = p
            \<and> hs_effective e =
                p * (1 - dict_get hyperscaler_discounts hs 0.30) * 0.80 + p * 0.20))
   \<and> (\<exists>r e. compute_report now [(''AWS'', 1.00)] = Inr r
         \<and> map_of (details_hyperscalers r) ''AWS'' = Some e
         \<and> dict_get hyperscaler_discounts ''AWS'' 0.30 = 0.44
         \<and> hs_original e = 1.00
         \<and> hs_effective e = 0.648)"
proof -
  have gen: "\<exists>r e. compute_report now' ps = Inr r
            \<and> map_of (details_hyperscalers r) h = Some e
            \<and> hs_original e = q
            \<and> hs_effective e =
                q * (1 - dict_get hyperscaler_discounts h 0.30) * 0.80 + q * 0.20"
    if "h \<in> set hyperscalers" "find_price ps (normalize_provider_name h) = Some q" "q \<noteq> 0"
    for now' ps h q
  proof -
    obtain r where r: "compute_report now' ps = Inr r"
      using compute_report_total by blast
    have d: "details_hyperscalers r = hyperscaler_data (hs_loop ps hyperscalers)"
      using compute_report_details [OF r] by simp
    show ?thesis
      using r d hs_foldl_entry [OF distinct_hyperscalers that(1) that(2) that(3)]
      by (simp add: hs_loop_def discounted_weight_def full_price_weight_def)
  qed
  have f: "find_price [(''AWS'', 1.00)] ''AWS'' = Some 1"
    by (simp add: find_price_def truthy_def)
  have a: "''AWS'' \<in> set hyperscalers"
    by (simp add: hyperscalers_def)
  have dsc: "dict_get hyperscaler_discounts ''AWS'' 0.30 = 0.44"
    by (simp add: dict_get_def hyperscaler_discounts_def)
  from gen [of "''AWS''" "[(''AWS'', 1.00)]" 1 now] a f normalize_hyperscaler_names(1)
  obtain r e where "compute_report now [(''AWS'', 1.00)] = Inr r"
    "map_of (details_hyperscalers r) ''AWS'' = Some e" "hs_original e = 1"
    "hs_effective e = 1 * (1 - dict_get hyperscaler_discounts ''AWS'' 0.30) * 0.80 + 1 * 0.20"
    by auto
  then have "\<exists>r e. compute_report now [(''AWS'', 1.00)] = Inr r
         \<and> map_of (details_hyperscalers r) ''AWS'' = Some e
         \<and> dict_get hyperscaler_discounts ''AWS'' 0.30 = 0.44
         \<and> hs_original e = 1.00
         \<and> hs_effective e = 0.648"
    using dsc by auto
  then show ?thesis using gen by blast
qed

theorem effective_price_blend_witness:
  "''Azure'' \<in> set hyperscalers
   \<and> find_price [(''Azure'', 2)] (normalize_provider_name ''Azure'') = Some 2
   \<and> (2::real) \<noteq> 0
   \<and> (\<exists>r e. compute_report ''2026-01-01 00:00:00'' [(''Azure'', 2)] = Inr r
         \<and> map_of (details_hyperscalers r) ''Azure'' = Some e
         \<and> hs_original e = 2
         \<and> hs_effective e = 2 * (1 - 0.65) * 0.80 + 2 * 0.20)"
proof -
  have a: "''Azure'' \<in> set hyperscalers"
    by (simp add: hyperscalers_def)
  have f: "find_price [(''Azure'', 2)] (normalize_provider_name ''Azure'') = Some 2"
    by (simp add: normalize_hyperscaler_names find_price_def truthy_def)
  have d: "dict_get hyperscaler_discounts ''Azure'' 0.30 = 0.65"
    by (simp add: dict_get_def hyperscaler_discounts_def)
  have nz: "(2::real) \<noteq> 0"
    by simp
  have "\<exists>r e. compute_report ''2026-01-01 00:00:00'' [(''Azure'', 2)] = Inr r
         \<and> map_of (details_hyperscalers r) ''Azure'' = Some e
         \<and> hs_original e = 2
         \<and> hs_effective e =
             2 * (1 - dict_get hyperscaler_discounts ''Azure'' 0.30) * 0.80 + 2 * 0.20"
    using a f nz
      effective_price_blend [of "''Azure''" "[(''Azure'', 2)]" 2 "''2026-01-01 00:00:00''"]
    by blast
  then show ?thesis
    unfolding d using a f by simp
qed

section \<open>Renormalization of the hyperscaler component\<close>


lemma hs_step_absent:
  "\<not> truthy (find_price prices (normalize_provider_name hs)) \<Longrightarrow> hs_step prices st hs = st"
  by (simp add: hs_step_def truthy_def split: option.splits)








section \<open>Properties of binary floating point\<close>

text \<open>
  \<open>exponent\<close> brackets its argument between two powers of two, and \<open>fl\<close> moves its
  argument by at most half the spacing of the doubles around it: by at most the fraction
  \<open>2^-53\<close> of the argument in the normal range.
\<close>

lemma pow2_pos: "0 < pow2 k"
  by (simp add: pow2_def)

lemma pow2_Suc: "pow2 (k + 1) = 2 * pow2 k"
proof (cases "0 \<le> k")
  case True
  then show ?thesis
    by (simp add: pow2_def nat_add_distrib)
next
  case False
  then have "nat (- k) = Suc (nat (- (k + 1)))"
    by simp
  then show ?thesis
    using False by (simp add: pow2_def)
qed

lemma pow2_power_int: "pow2 k = 2 powi k"
  by (simp add: pow2_def power_int_def field_simps)

lemma floor_log2_up_bounds:
  "1 \<le> x \<Longrightarrow> pow2 (floor_log2_up x) \<le> x \<and> x < pow2 (floor_log2_up x + 1)"
proof (induction x rule: floor_log2_up.induct)
  case (1 x)
  show ?case
  proof (cases "2 \<le> x")
    case True
    then have "1 \<le> x / 2" by simp
    from "1.IH" [OF True this]
    have "pow2 (floor_log2_up (x / 2)) \<le> x / 2" "x / 2 < pow2 (floor_log2_up (x / 2) + 1)"
      by simp_all
    then have b: "2 * pow2 (floor_log2_up (x / 2)) \<le> x"
      "x < 2 * pow2 (floor_log2_up (x / 2) + 1)"
      by simp_all
    have s: "floor_log2_up x = floor_log2_up (x / 2) + 1"
      using True by (subst floor_log2_up.simps) simp
    have "pow2 (floor_log2_up (x / 2) + 1) \<le> x"
      "x < pow2 (floor_log2_up (x / 2) + 1 + 1)"
      using b by (simp_all only: pow2_Suc)
    then show ?thesis
      unfolding s by (rule conjI)
  next
    case False
    then have "floor_log2_up x = 0"
      by (subst floor_log2_up.simps) simp
    then show ?thesis
      using False "1.prems" by (simp add: pow2_def)
  qed
qed

lemma floor_log2_down_bounds:
  "0 < x \<Longrightarrow> x < 1 \<Longrightarrow>
   pow2 (floor_log2_down x) \<le> x \<and> x < pow2 (floor_log2_down x + 1)"
proof (induction x rule: floor_log2_down.induct)
  case (1 x)
  show ?case
  proof (cases "x < 1 / 2")
    case True
    then have c: "0 < x \<and> x < 1 / 2" "0 < 2 * x" "2 * x < 1"
      using "1.prems" by simp_all
    from "1.IH" [OF c]
    have b: "pow2 (floor_log2_down (2 * x)) \<le> 2 * x"
      "2 * x < pow2 (floor_log2_down (2 * x) + 1)"
      by simp_all
    have s: "floor_log2_down (2 * x) = floor_log2_down x + 1"
      using c(1) by (subst (2) floor_log2_down.simps) simp
    have "2 * pow2 (floor_log2_down x) \<le> 2 * x"
      "2 * x < 2 * pow2 (floor_log2_down x + 1)"
      using b unfolding s by (simp_all only: pow2_Suc)
    then show ?thesis
      by simp
  next
    case False
    then have "floor_log2_down x = - 1"
      by (subst floor_log2_down.simps) simp
    then show ?thesis
      using False "1.prems" by (simp add: pow2_def)
  qed
qed

lemma exponent_bounds:
  "x \<noteq> 0 \<Longrightarrow> pow2 (exponent x) \<le> \<bar>x\<bar> \<and> \<bar>x\<bar> < pow2 (exponent x + 1)"
proof (cases "1 \<le> \<bar>x\<bar>")
  case True
  then show ?thesis
    using floor_log2_up_bounds [of "\<bar>x\<bar>"] by (simp add: exponent_def)
next
  case False
  assume "x \<noteq> 0"
  then show ?thesis
    using False floor_log2_down_bounds [of "\<bar>x\<bar>"] by (simp add: exponent_def)
qed

lemma round_half_even_error: "\<bar>of_int (round_half_even y) - y\<bar> \<le> 1 / 2"
  unfolding round_half_even_def Let_def by (auto; linarith)

lemma fl_error:
  "\<bar>fl x - x\<bar> \<le> pow2 (max (exponent x) (- 1022) - 52) / 2"
proof (cases "x = 0")
  case True
  then show ?thesis
    using pow2_pos [of "max (exponent 0) (- 1022) - 52"] by (simp add: fl_def)
next
  case False
  define u where "u = pow2 (max (exponent x) (- 1022) - 52)"
  have u: "0 < u"
    by (simp add: u_def pow2_pos)
  have "fl x - x = (of_int (round_half_even (x / u)) - x / u) * u"
    using False u by (simp add: fl_def u_def [symmetric] Let_def algebra_simps)
  then have "\<bar>fl x - x\<bar> = \<bar>of_int (round_half_even (x / u)) - x / u\<bar> * u"
    using u by (simp add: abs_mult)
  also have "\<dots> \<le> 1 / 2 * u"
    using round_half_even_error [of "x / u"] u by (intro mult_right_mono) simp_all
  finally show ?thesis
    by (simp add: u_def)
qed

lemma fl_relative_error:
  assumes "x \<noteq> 0" "- 1022 \<le> exponent x"
  shows "\<bar>fl x - x\<bar> \<le> \<bar>x\<bar> / 2 ^ 53"
proof -
  have m: "max (exponent x) (- 1022) = exponent x"
    using assms(2) by simp
  have "pow2 (exponent x - 52) * 2 ^ 52 = pow2 (exponent x)"
    unfolding pow2_power_int
    using power_int_add [of "2::real" "exponent x - 52" 52] by simp
  then have "pow2 (exponent x - 52) / 2 = pow2 (exponent x) / 2 ^ 53"
    by (simp add: field_simps)
  also have "\<dots> \<le> \<bar>x\<bar> / 2 ^ 53"
    using exponent_bounds [OF assms(1)] by (simp add: divide_right_mono)
  finally show ?thesis
    using fl_error [of x] unfolding m by linarith
qed

lemmas fl_eval = fl_def exponent_def floor_log2_up.simps floor_log2_down.simps pow2_def
  round_half_even_def Let_def fadd_def fsub_def fmul_def

lemma fl_literals:
  "fl 0.80 = 3602879701896397 / 4503599627370496"
  "fl 1.20 = 5404319552844595 / 4503599627370496"
  "fl 0.50 = 1 / 2"
  "fl 0.60 = 5404319552844595 / 9007199254740992"
  "fl 0.61 = 5494391545392005 / 9007199254740992"
  "fl 0.45 = 8106479329266893 / 18014398509481984"
  "fl 0.36 = 3242591731706757 / 9007199254740992"
  "fl 0.57 = 5134103575202365 / 9007199254740992"
  "fl 0.4512 = 8128096607478271 / 18014398509481984"
  "fl (10 ^ 18) = 10 ^ 18"
  by (simp_all add: fl_eval)

section \<open>The Publish Gate\<close>

lemma validate_price_iff:
  "validate_price new_price response_data =
     (case response_data of
        [] \<Rightarrow> True
      | row # _ \<Rightarrow> fmul (fl (index_price row)) (fl 0.80) \<le> new_price
                   \<and> new_price \<le> fmul (fl (index_price row)) (fl 1.20))"
  by (simp add: validate_price_def Let_def split: list.splits)

lemma push_rejected:
  "\<not> validate_price (final_index_price index_data) (take 1 (t4_index_prices store)) \<Longrightarrow>
   push_to_supabase env store index_data = (False, store)"
  by (simp add: push_to_supabase_def Let_def)

text \<open>
  The bounds that the gate computes for the previous prices 0.50, 0.45 and 0.75, and the
  double read from \<open>0.90\<close>.
\<close>

lemma gate_bounds:
  "fmul (fl 0.50) (fl 0.80) = 3602879701896397 / 9007199254740992"
  "fmul (fl 0.50) (fl 1.20) = 5404319552844595 / 9007199254740992"
  "fmul (fl 0.45) (fl 0.80) = 6485183463413515 / 18014398509481984"
  "fmul (fl 0.45) (fl 1.20) = 607985949695017 / 1125899906842624"
  "fmul (fl 0.75) (fl 1.20) = 2026619832316723 / 2251799813685248"
  "fl 0.90 = 8106479329266893 / 9007199254740992"
  by (simp_all add: fl_eval)

text \<open>
  Claim C4, as stated, fails: 0.36 lies within the bounds \<open>0.45*0.80\<close> and \<open>0.45*1.20\<close>,
  both included, but the product that the gate computes for the lower bound is the double
  above 0.36, and the run with previous price 0.45 and new price 0.36 is aborted.
\<close>

theorem publish_gate_counterexample:
  "(0.45::real) * 0.80 \<le> 0.36 \<and> (0.36::real) \<le> 0.45 * 1.20
   \<and> fl 0.36 < fmul (fl 0.45) (fl 0.80)
   \<and> \<not> validate_price (fl 0.36) (take 1 (t4_index_prices (store_with_previous 0.45)))
   \<and> push_to_supabase healthy_env (store_with_previous 0.45)
        \<lparr>timestamp = ''2026-01-02 00:00:00'', final_index_price = fl 0.36,
         component_hyperscaler = 0.30, component_neocloud = 0.06,
         details_hyperscalers = [], details_neoclouds = []\<rparr>
       = (False, store_with_previous 0.45)"
proof -
  have a: "(0.45::real) * 0.80 \<le> 0.36 \<and> (0.36::real) \<le> 0.45 * 1.20"
    by simp
  have b: "fl 0.36 < fmul (fl 0.45) (fl 0.80)"
    by (simp add: fl_eval)
  have c: "\<not> validate_price (fl 0.36) (take 1 (t4_index_prices (store_with_previous 0.45)))"
    using b by (simp add: validate_price_iff store_with_previous_def)
  have d: "push_to_supabase healthy_env (store_with_previous 0.45)
        \<lparr>timestamp = ''2026-01-02 00:00:00'', final_index_price = fl 0.36,
         component_hyperscaler = 0.30, component_neocloud = 0.06,
         details_hyperscalers = [], details_neoclouds = []\<rparr>
       = (False, store_with_previous 0.45)"
    using c by (intro push_rejected) simp
  show ?thesis
    using a b c d by (intro conjI) simp_all
qed

text \<open>
  Claim C4, amended. The Publish Gate accepts a new price unconditionally when no previous
  price exists; otherwise its bounds are the products \<open>previous*0.80\<close> and \<open>previous*1.20\<close>
  computed in binary floating point, and it accepts exactly when the new price lies between
  the two computed bounds, both included. A previous price of 0.50 accepts 0.60 and rejects
  0.61; a new price exactly 20 percent away is rejected where the computed bound has been
  rounded past it (0.45 to 0.36, 0.75 to 0.90). With a store that answers and stores,
  \<open>push_to_supabase\<close> returns \<open>True\<close> exactly when the gate accepts.
\<close>

theorem publish_gate_accept:
  "validate_price new_price []
   \<and> (validate_price new_price (row # rest)
        \<longleftrightarrow> fmul (fl (index_price row)) (fl 0.80) \<le> new_price
            \<and> new_price \<le> fmul (fl (index_price row)) (fl 1.20))
   \<and> validate_price (fl 0.60) [row\<lparr>index_price := 0.50\<rparr>]
   \<and> \<not> validate_price (fl 0.61) [row\<lparr>index_price := 0.50\<rparr>]
   \<and> \<not> validate_price (fl 0.36) [row\<lparr>index_price := 0.45\<rparr>]
   \<and> \<not> validate_price (fl 0.90) [row\<lparr>index_price := 0.75\<rparr>]
   \<and> (credentials env \<and> library env \<and> client_ok env \<and> select_ok env
        \<and> insert_index env = Inserted idx \<and> insert_providers_ok env
      \<longrightarrow> (fst (push_to_supabase env store index_data)
            \<longleftrightarrow> (case t4_index_prices store of
                   [] \<Rightarrow> True
                 | prev # _ \<Rightarrow>
                     fmul (fl (index_price prev)) (fl 0.80) \<le> final_index_price index_data
                     \<and> final_index_price index_data
                         \<le> fmul (fl (index_price prev)) (fl 1.20))))"
proof -
  have 1: "validate_price new_price []"
    by (simp add: validate_price_iff)
  have 2: "validate_price new_price (row # rest)
        \<longleftrightarrow> fmul (fl (index_price row)) (fl 0.80) \<le> new_price
            \<and> new_price \<le> fmul (fl (index_price row)) (fl 1.20)"
    by (simp add: validate_price_iff)
  have 3: "validate_price (fl 0.60) [row\<lparr>index_price := 0.50\<rparr>]"
    by (simp add: validate_price_iff fl_eval)
  have 4: "\<not> validate_price (fl 0.61) [row\<lparr>index_price := 0.50\<rparr>]"
    by (simp add: validate_price_iff fl_eval)
  have 5: "\<not> validate_price (fl 0.36) [row\<lparr>index_price := 0.45\<rparr>]"
    by (simp add: validate_price_iff fl_eval)
  have 6: "\<not> validate_price (fl 0.90) [row\<lparr>index_price := 0.75\<rparr>]"
    by (simp add: validate_price_iff fl_eval)
  have 7: "fst (push_to_supabase env store index_data)
            \<longleftrightarrow> (case t4_index_prices store of
                   [] \<Rightarrow> True
                 | prev # _ \<Rightarrow>
                     fmul (fl (index_price prev)) (fl 0.80) \<le> final_index_price index_data
                     \<and> final_index_price index_data
                         \<le> fmul (fl (index_price prev)) (fl 1.20))"
    if "credentials env" "library env" "client_ok env" "select_ok env"
       "insert_index env = Inserted idx" "insert_providers_ok env"
    using that
    by (cases "t4_index_prices store")
       (simp_all add: push_to_supabase_def Let_def validate_price_iff)
  show ?thesis
    using 1 2 3 4 5 6 7 by blast
qed

theorem publish_gate_accept_witness:
  "credentials healthy_env \<and> library healthy_env \<and> client_ok healthy_env
   \<and> select_ok healthy_env \<and> insert_index healthy_env = Inserted 7
   \<and> insert_providers_ok healthy_env
   \<and> fst (push_to_supabase healthy_env (store_with_previous 0.50)
        \<lparr>timestamp = ''2026-01-02 00:00:00'', final_index_price = fl 0.60,
         component_hyperscaler = 0.45, component_neocloud = 0.15,
         details_hyperscalers = [], details_neoclouds = []\<rparr>)
   \<and> \<not> fst (push_to_supabase healthy_env (store_with_previous 0.50)
        \<lparr>timestamp = ''2026-01-02 00:00:00'', final_index_price = fl 0.61,
         component_hyperscaler = 0.45, component_neocloud = 0.16,
         details_hyperscalers = [], details_neoclouds = []\<rparr>)"
proof -
  have h: "credentials healthy_env" "library healthy_env" "client_ok healthy_env"
    "select_ok healthy_env" "insert_index healthy_env = Inserted 7"
    "insert_providers_ok healthy_env"
    by (simp_all add: healthy_env_def)
  have s: "t4_index_prices (store_with_previous 0.50) =
      [\<lparr>row_timestamp = ''2026-01-01 00:00:00'', index_price = 0.50,
        hyperscaler_component = 0.40, neocloud_component = 0.10,
        metadata_hyperscalers = [], metadata_neoclouds = []\<rparr>]"
    by (simp add: store_with_previous_def)
  have a: "fst (push_to_supabase healthy_env (store_with_previous 0.50)
        \<lparr>timestamp = ''2026-01-02 00:00:00'', final_index_price = fl 0.60,
         component_hyperscaler = 0.45, component_neocloud = 0.15,
         details_hyperscalers = [], details_neoclouds = []\<rparr>)"
    using h publish_gate_accept [where env = healthy_env and idx = 7
        and store = "store_with_previous 0.50"
        and index_data = "\<lparr>timestamp = ''2026-01-02 00:00:00'', final_index_price = fl 0.60,
         component_hyperscaler = 0.45, component_neocloud = 0.15,
         details_hyperscalers = [], details_neoclouds = []\<rparr>"]
    unfolding s by (simp add: fl_eval)
  have b: "\<not> fst (push_to_supabase healthy_env (store_with_previous 0.50)
        \<lparr>timestamp = ''2026-01-02 00:00:00'', final_index_price = fl 0.61,
         component_hyperscaler = 0.45, component_neocloud = 0.16,
         details_hyperscalers = [], details_neoclouds = []\<rparr>)"
    using h publish_gate_accept [where env = healthy_env and idx = 7
        and store = "store_with_previous 0.50"
        and index_data = "\<lparr>timestamp = ''2026-01-02 00:00:00'', final_index_price = fl 0.61,
         component_hyperscaler = 0.45, component_neocloud = 0.16,
         details_hyperscalers = [], details_neoclouds = []\<rparr>"]
    unfolding s by (simp add: fl_eval)
  show ?thesis
    using h a b by (intro conjI)
qed

text \<open>
  Claim C5. When the Publish Gate rejects the new index price (a previous price exists and
  the new one is outside the bounds the gate computes), the run writes nothing:
  \<open>push_to_supabase\<close> returns \<open>False\<close> to its caller and the store is unchanged, the index
  table as well as the table of provider records, whatever the surroundings do.
\<close>

theorem push_rejected_no_write:
  "t4_index_prices store = prev # older \<Longrightarrow>
   \<not> (fmul (fl (index_price prev)) (fl 0.80) \<le> final_index_price index_data
       \<and> final_index_price index_data \<le> fmul (fl (index_price prev)) (fl 1.20)) \<Longrightarrow>
   push_to_supabase env store index_data = (False, store)
   \<and> t4_index_prices (snd (push_to_supabase env store index_data)) = t4_index_prices store
   \<and> t4_provider_prices (snd (push_to_supabase env store index_data)) = t4_provider_prices store"
proof -
  assume a: "t4_index_prices store = prev # older"
    and b: "\<not> (fmul (fl (index_price prev)) (fl 0.80) \<le> final_index_price index_data
       \<and> final_index_price index_data \<le> fmul (fl (index_price prev)) (fl 1.20))"
  have "\<not> validate_price (final_index_price index_data) (take 1 (t4_index_prices store))"
    using a b by (simp add: validate_price_iff)
  then have "push_to_supabase env store index_data = (False, store)"
    by (rule push_rejected)
  then show ?thesis by simp
qed

theorem push_rejected_no_write_witness:
  "push_to_supabase healthy_env (store_with_previous 0.50)
     \<lparr>timestamp = ''2026-01-02 00:00:00'', final_index_price = fl 0.61,
      component_hyperscaler = 0.45, component_neocloud = 0.16,
      details_hyperscalers = [], details_neoclouds = []\<rparr>
   = (False, store_with_previous 0.50)"
proof -
  have s: "t4_index_prices (store_with_previous 0.50) =
      \<lparr>row_timestamp = ''2026-01-01 00:00:00'', index_price = 0.50,
        hyperscaler_component = 0.40, neocloud_component = 0.10,
        metadata_hyperscalers = [], metadata_neoclouds = []\<rparr> # []"
    by (simp add: store_with_previous_def)
  have n: "\<not> (fmul (fl (index_price
        \<lparr>row_timestamp = ''2026-01-01 00:00:00'', index_price = 0.50,
        hyperscaler_component = 0.40, neocloud_component = 0.10,
        metadata_hyperscalers = [], metadata_neoclouds = []\<rparr>)) (fl 0.80)
      \<le> final_index_price \<lparr>timestamp = ''2026-01-02 00:00:00'', final_index_price = fl 0.61,
      component_hyperscaler = 0.45, component_neocloud = 0.16,
      details_hyperscalers = [], details_neoclouds = []\<rparr>
       \<and> final_index_price \<lparr>timestamp = ''2026-01-02 00:00:00'', final_index_price = fl 0.61,
      component_hyperscaler = 0.45, component_neocloud = 0.16,
      details_hyperscalers = [], details_neoclouds = []\<rparr>
      \<le> fmul (fl (index_price \<lparr>row_timestamp = ''2026-01-01 00:00:00'', index_price = 0.50,
        hyperscaler_component = 0.40, neocloud_component = 0.10,
        metadata_hyperscalers = [], metadata_neoclouds = []\<rparr>)) (fl 1.20))"
    by (simp add: fl_eval)
  from push_rejected_no_write [OF s n, of healthy_env]
  show ?thesis
    by (rule conjunct1)
qed

section \<open>The fixed-point encoding of the oracle\<close>









section \<open>The loader returns a dictionary\<close>







section \<open>Normalized weights of the neocloud component\<close>













section \<open>No data\<close>

lemma py_round_f_zero: "py_round_f 0 n = 0"
  by (simp add: py_round_f_def round_half_even_def fl_def)

lemma hs_step_f_absent:
  "\<not> truthy (find_price prices (normalize_provider_name hs)) \<Longrightarrow> hs_step_f prices st hs = st"
  by (cases st) (simp add: hs_step_f_def truthy_def split: option.splits)

lemma hs_sums_f_none_found:
  "\<forall>hs\<in>set hss. \<not> truthy (find_price prices (normalize_provider_name hs)) \<Longrightarrow>
   hs_sums_f prices hss = (0, 0)"
  unfolding hs_sums_f_def
  by (induction hss) (simp_all add: hs_step_f_absent)

lemma hs_loop_none_found:
  "\<forall>hs\<in>set hss. \<not> truthy (find_price prices (normalize_provider_name hs)) \<Longrightarrow>
   hs_loop prices hss = \<lparr>hs_weighted_sum = 0, hs_weight_used = 0, hyperscaler_data = []\<rparr>"
  unfolding hs_loop_def
  by (induction hss) (simp_all add: hs_step_absent)

lemma compute_report_nothing_eligible:
  assumes "\<forall>hs\<in>set hyperscalers. \<not> truthy (find_price prices (normalize_provider_name hs))"
    and "nc_providers prices = []"
  shows "compute_report now prices =
     Inr \<lparr>timestamp = now, final_index_price = 0, component_hyperscaler = 0,
          component_neocloud = 0, details_hyperscalers = [], details_neoclouds = []\<rparr>"
  by (simp add: compute_report_def hs_loop_none_found [OF assms(1)]
      hs_sums_f_none_found [OF assms(1)] assms(2) normalize_hs_sum_f_def nc_collect_def
      nc_sum_f_def nc_weight_used_f_def fadd_def fl_def py_round_f_zero)

text \<open>
  Claim C6, as stated, fails: with no combined file and no per-source file the loader yields
  no observation, and \<open>calculate_index\<close> returns early with no snapshot and no report.
\<close>

theorem no_data_counterexample:
  "load_prices Missing [] = []
   \<and> calculate_index ''2026-01-01 00:00:00'' Missing [] = Inr None"
  by (simp add: calculate_index_def load_prices_def load_from_individual_files_def)

text \<open>
  Claim C6, amended. When the loader yields no usable observation, \<open>calculate_index\<close>
  returns without a snapshot and writes no report. Whenever the loader yields an
  observation, the calculator does not fail and a report is written; the report is
  zero-valued (index price and both components 0) when no hyperscaler price is found and
  no loaded provider counts as a neocloud.
\<close>

theorem no_data_no_report:
  "(load_prices combined files = [] \<longrightarrow> calculate_index now combined files = Inr None)
   \<and> (load_prices combined files \<noteq> []
        \<longrightarrow> (\<exists>r. calculate_index now combined files = Inr (Some r)))
   \<and> (load_prices combined files \<noteq> []
        \<and> (\<forall>hs\<in>set hyperscalers.
              \<not> truthy (find_price (load_prices combined files) (normalize_provider_name hs)))
        \<and> nc_providers (load_prices combined files) = []
        \<longrightarrow> calculate_index now combined files =
              Inr (Some \<lparr>timestamp = now, final_index_price = 0, component_hyperscaler = 0,
                         component_neocloud = 0, details_hyperscalers = [],
                         details_neoclouds = []\<rparr>))"
proof -
  have 1: "load_prices combined files = [] \<longrightarrow> calculate_index now combined files = Inr None"
    by (simp add: calculate_index_def)
  have 2: "\<exists>r. calculate_index now combined files = Inr (Some r)"
    if "load_prices combined files \<noteq> []"
  proof -
    obtain r where "compute_report now (load_prices combined files) = Inr r"
      using compute_report_total by blast
    then show ?thesis
      using that by (simp add: calculate_index_def)
  qed
  have 3: "calculate_index now combined files =
              Inr (Some \<lparr>timestamp = now, final_index_price = 0, component_hyperscaler = 0,
                         component_neocloud = 0, details_hyperscalers = [],
                         details_neoclouds = []\<rparr>)"
    if "load_prices combined files \<noteq> []"
      "\<forall>hs\<in>set hyperscalers.
              \<not> truthy (find_price (load_prices combined files) (normalize_provider_name hs))"
      "nc_providers (load_prices combined files) = []"
    using that(1) compute_report_nothing_eligible [OF that(2) that(3)]
    by (simp add: calculate_index_def)
  show ?thesis
    using 1 2 3 by blast
qed

lemma load_only_aggregator:
  "load_prices (Prices [(''GetDeploying'', ''$0.27/hr'')]) [] = [(''GetDeploying'', 0.27)]"
  by code_simp

lemma aggregator_not_eligible:
  "\<forall>hs\<in>set hyperscalers.
      \<not> truthy (find_price [(''GetDeploying'', 0.27)] (normalize_provider_name hs))"
  "nc_providers [(''GetDeploying'', 0.27)] = []"
  by code_simp+

theorem no_data_no_report_witness:
  "load_prices Missing [] = []
   \<and> calculate_index ''2026-01-01 00:00:00'' Missing [] = Inr None
   \<and> load_prices (Prices [(''GetDeploying'', ''$0.27/hr'')]) [] \<noteq> []
   \<and> \<not> truthy (find_price (load_prices (Prices [(''GetDeploying'', ''$0.27/hr'')]) [])
                  (normalize_provider_name ''AWS''))
   \<and> \<not> truthy (find_price (load_prices (Prices [(''GetDeploying'', ''$0.27/hr'')]) [])
                  (normalize_provider_name ''Azure''))
   \<and> \<not> truthy (find_price (load_prices (Prices [(''GetDeploying'', ''$0.27/hr'')]) [])
                  (normalize_provider_name ''GCP''))
   \<and> nc_providers (load_prices (Prices [(''GetDeploying'', ''$0.27/hr'')]) []) = []
   \<and> calculate_index ''2026-01-01 00:00:00'' (Prices [(''GetDeploying'', ''$0.27/hr'')]) [] =
        Inr (Some \<lparr>timestamp = ''2026-01-01 00:00:00'', final_index_price = 0,
                   component_hyperscaler = 0, component_neocloud = 0,
                   details_hyperscalers = [], details_neoclouds = []\<rparr>)"
proof -
  have e: "load_prices Missing [] = []"
    by (simp add: load_prices_def load_from_individual_files_def)
  have n: "load_prices (Prices [(''GetDeploying'', ''$0.27/hr'')]) [] \<noteq> []"
    by (simp add: load_only_aggregator)
  have h: "\<forall>hs\<in>set hyperscalers.
         \<not> truthy (find_price (load_prices (Prices [(''GetDeploying'', ''$0.27/hr'')]) [])
                     (normalize_provider_name hs))"
    unfolding load_only_aggregator by (rule aggregator_not_eligible(1))
  have h3:
    "\<not> truthy (find_price (load_prices (Prices [(''GetDeploying'', ''$0.27/hr'')]) [])
                  (normalize_provider_name ''AWS''))"
    "\<not> truthy (find_price (load_prices (Prices [(''GetDeploying'', ''$0.27/hr'')]) [])
                  (normalize_provider_name ''Azure''))"
    "\<not> truthy (find_price (load_prices (Prices [(''GetDeploying'', ''$0.27/hr'')]) [])
                  (normalize_provider_name ''GCP''))"
    using h by (simp_all add: hyperscalers_def)
  have c: "nc_providers (load_prices (Prices [(''GetDeploying'', ''$0.27/hr'')]) []) = []"
    unfolding load_only_aggregator by (rule aggregator_not_eligible(2))
  have r1: "calculate_index ''2026-01-01 00:00:00'' Missing [] = Inr None"
    using e no_data_no_report [of Missing "[]" "''2026-01-01 00:00:00''"] by blast
  have r2: "calculate_index ''2026-01-01 00:00:00'' (Prices [(''GetDeploying'', ''$0.27/hr'')]) [] =
        Inr (Some \<lparr>timestamp = ''2026-01-01 00:00:00'', final_index_price = 0,
                   component_hyperscaler = 0, component_neocloud = 0,
                   details_hyperscalers = [], details_neoclouds = []\<rparr>)"
    using n h c
      no_data_no_report [of "Prices [(''GetDeploying'', ''$0.27/hr'')]" "[]"
        "''2026-01-01 00:00:00''"]
    by blast
  show ?thesis
    by (intro conjI) (rule e r1 n h3 c r2)+
qed

section \<open>Rounding of the report\<close>

lemma push_index_rows:
  "t4_index_prices (snd (push_to_supabase env store r)) = t4_index_prices store
   \<or> (\<exists>row. t4_index_prices (snd (push_to_supabase env store r)) = row # t4_index_prices store
          \<and> index_price row = final_index_price r
          \<and> hyperscaler_component row = component_hyperscaler r
          \<and> neocloud_component row = component_neocloud r)"
  by (simp add: push_to_supabase_def Let_def split: insert_outcome.splits)

lemma push_accepts_validated:
  "fst (push_to_supabase env store r) \<Longrightarrow>
   validate_price (final_index_price r) (take 1 (t4_index_prices store))"
  by (simp add: push_to_supabase_def Let_def split: if_splits)

lemma push_healthy:
  "validate_price (final_index_price r) (take 1 (t4_index_prices store)) \<Longrightarrow>
   fst (push_to_supabase healthy_env store r)
   \<and> map index_price (t4_index_prices (snd (push_to_supabase healthy_env store r)))
       = final_index_price r # map index_price (t4_index_prices store)"
  by (simp add: push_to_supabase_def healthy_env_def Let_def)

lemma py_round_f_near:
  "\<bar>of_int (round_half_even (x * 10 ^ n)) / 10 ^ n - x\<bar> \<le> 1 / (2 * 10 ^ n)"
proof -
  define k where "k = round_half_even (x * 10 ^ n)"
  have e: "of_int k / 10 ^ n - x = (of_int k - x * 10 ^ n) / 10 ^ n"
    by (simp add: field_simps)
  have "\<bar>of_int k / 10 ^ n - x\<bar> = \<bar>of_int k - x * 10 ^ n\<bar> / 10 ^ n"
    unfolding e by simp
  also have "\<dots> \<le> (1 / 2) / 10 ^ n"
    unfolding k_def by (rule divide_right_mono [OF round_half_even_error]) simp
  finally show ?thesis
    unfolding k_def by simp
qed

lemma oracle_two_prices:
  "main_submitted (Some 1) csv_price = Some 1000000000000000000"
  "main_submitted (Some 2) csv_price = Some 2000000000000000000"
  by (simp_all add: main_submitted_def price_scaled_def PRICE_DECIMALS_def py_int_def fl_eval)

text \<open>One neocloud at 0.50 and no hyperscaler.\<close>

lemma vast_only_strings:
  "\<forall>hs\<in>set hyperscalers. \<not> truthy (find_price [(''Vast.ai'', 0.50)] (normalize_provider_name hs))"
  "nc_providers [(''Vast.ai'', 0.50)] = [(''Vast.ai'', 0.50)]"
  "weight_key ''Vast.ai'' = ''Vast.ai''"
  by code_simp+

lemma vast_only_data:
  "neocloud_data (nc_collect [(''Vast.ai'', 0.50)])
     = [(''Vast.ai'', \<lparr>nc_price = 0.50, nc_raw_weight = 0.15\<rparr>)]"
  by code_simp

lemma vast_only_nc_sum:
  "nc_sum_f [(''Vast.ai'', 0.50)] = Inr (3152519739159347 / 18014398509481984)"
  unfolding nc_sum_f_def nc_weight_used_f_def vast_only_data
  by (simp add: vast_only_strings(3) dict_get_def neocloud_weights_def py_div_f_def
      neocloud_total_weight_def fl_eval)

lemma vast_only_report:
  "compute_report ''2026-01-02 00:00:00'' [(''Vast.ai'', 0.50)] =
     Inr \<lparr>timestamp = ''2026-01-02 00:00:00'', final_index_price = fl 0.17,
          component_hyperscaler = 0, component_neocloud = fl 0.175,
          details_hyperscalers = [],
          details_neoclouds = [(''Vast.ai'', \<lparr>nc_price = 0.50, nc_raw_weight = 0.15\<rparr>)]\<rparr>"
proof -
  have h: "hs_sums_f [(''Vast.ai'', 0.50)] hyperscalers = (0, 0)"
    by (rule hs_sums_f_none_found [OF vast_only_strings(1)])
  have l: "hs_loop [(''Vast.ai'', 0.50)] hyperscalers
      = \<lparr>hs_weighted_sum = 0, hs_weight_used = 0, hyperscaler_data = []\<rparr>"
    by (rule hs_loop_none_found [OF vast_only_strings(1)])
  have f: "py_round_f (fadd 0 (3152519739159347 / 18014398509481984)) 2 = fl 0.17"
    "py_round_f (3152519739159347 / 18014398509481984) 4 = fl 0.175"
    by (simp_all add: py_round_f_def fl_eval)
  show ?thesis
    unfolding compute_report_def h vast_only_strings(2) vast_only_nc_sum l vast_only_data
    by (simp add: normalize_hs_sum_f_def f py_round_f_zero)
qed

text \<open>
  Claim C10, as stated, fails for the second sink. With the single price 0.50 for Vast.ai
  the raw sum is the double 0.175 and the report carries 0.17, whose encoding would be
  170000000000000000. The on-chain updater does not read the report: given the raw sum by
  its CSV file it submits 175000000000000000, unrounded, and given 5.00 by \<open>--price\<close> it
  submits 5000000000000000000, with no Publish Gate on its path.
\<close>

theorem report_rounding_counterexample:
  "compute_report ''2026-01-02 00:00:00'' [(''Vast.ai'', 0.50)] =
     Inr \<lparr>timestamp = ''2026-01-02 00:00:00'', final_index_price = fl 0.17,
          component_hyperscaler = 0, component_neocloud = fl 0.175,
          details_hyperscalers = [],
          details_neoclouds = [(''Vast.ai'', \<lparr>nc_price = 0.50, nc_raw_weight = 0.15\<rparr>)]\<rparr>
   \<and> price_scaled (fl 0.17) = 170000000000000000
   \<and> main_submitted None (Some 0.175) = Some 175000000000000000
   \<and> main_submitted (Some 5.00) (Some 0.17) = Some 5000000000000000000"
proof -
  have a: "price_scaled (fl 0.17) = 170000000000000000"
    by (simp add: price_scaled_def PRICE_DECIMALS_def py_int_def fl_eval)
  have b: "main_submitted None (Some 0.175) = Some 175000000000000000"
    by (simp add: main_submitted_def price_scaled_def PRICE_DECIMALS_def py_int_def fl_eval)
  have c: "main_submitted (Some 5.00) (Some 0.17) = Some 5000000000000000000"
    by (simp add: main_submitted_def price_scaled_def PRICE_DECIMALS_def py_int_def fl_eval)
  show ?thesis
    using vast_only_report a b c by (intro conjI)
qed

text \<open>
  Claim C10, amended. In every report written by the calculator, \<open>final_index_price\<close> is
  the sum of the two components, as computed in binary floating point, rounded to 2
  decimals, and each component is rounded to 4 decimals: each field is the double nearest
  to a decimal with that many places, which lies within half a unit of the last place of
  the raw value. The gate of \<open>push_to_supabase\<close> validates the rounded price, and the index
  row it stores carries the rounded price and the rounded components. The on-chain updater
  is not bound to the report: some price given by \<open>--price\<close> makes it submit an integer
  other than the encoding of the report's price.
\<close>

theorem report_rounding:
  "compute_report now prices = Inr r \<Longrightarrow>
   (\<exists>ws wu hs_sum nc_sum.
      hs_sums_f prices hyperscalers = (ws, wu)
      \<and> normalize_hs_sum_f ws wu = Inr hs_sum
      \<and> nc_sum_f (nc_providers prices) = Inr nc_sum
      \<and> final_index_price r = py_round_f (fadd hs_sum nc_sum) 2
      \<and> component_hyperscaler r = py_round_f hs_sum 4
      \<and> component_neocloud r = py_round_f nc_sum 4
      \<and> (\<exists>k. final_index_price r = fl (of_int k / 100)
             \<and> \<bar>of_int k / 100 - fadd hs_sum nc_sum\<bar> \<le> 1 / 200)
      \<and> (\<exists>k. component_hyperscaler r = fl (of_int k / 10000)
             \<and> \<bar>of_int k / 10000 - hs_sum\<bar> \<le> 1 / 20000)
      \<and> (\<exists>k. component_neocloud r = fl (of_int k / 10000)
             \<and> \<bar>of_int k / 10000 - nc_sum\<bar> \<le> 1 / 20000)
      \<and> (fst (push_to_supabase env store r) \<longrightarrow>
           validate_price (py_round_f (fadd hs_sum nc_sum) 2) (take 1 (t4_index_prices store)))
      \<and> (t4_index_prices (snd (push_to_supabase env store r)) = t4_index_prices store
          \<or> (\<exists>row. t4_index_prices (snd (push_to_supabase env store r))
                      = row # t4_index_prices store
                \<and> index_price row = py_round_f (fadd hs_sum nc_sum) 2
                \<and> hyperscaler_component row = py_round_f hs_sum 4
                \<and> neocloud_component row = py_round_f nc_sum 4)))
   \<and> (\<exists>a. main_submitted (Some a) csv_price \<noteq> Some (price_scaled (final_index_price r)))"
proof -
  assume r: "compute_report now prices = Inr r"
  obtain ws wu where s: "hs_sums_f prices hyperscalers = (ws, wu)"
    by (cases "hs_sums_f prices hyperscalers")
  obtain hs_sum where h: "normalize_hs_sum_f ws wu = Inr hs_sum"
    using normalize_hs_sum_f_total by blast
  obtain nc_sum where n: "nc_sum_f (nc_providers prices) = Inr nc_sum"
    using nc_sum_f_total by blast
  have f: "final_index_price r = py_round_f (fadd hs_sum nc_sum) 2"
    and ch: "component_hyperscaler r = py_round_f hs_sum 4"
    and cn: "component_neocloud r = py_round_f nc_sum 4"
    using r by (auto simp: compute_report_def Let_def s h n)
  have k2: "\<exists>k. final_index_price r = fl (of_int k / 100)
             \<and> \<bar>of_int k / 100 - fadd hs_sum nc_sum\<bar> \<le> 1 / 200"
    using py_round_f_near [of "fadd hs_sum nc_sum" 2]
    by (intro exI [of _ "round_half_even (fadd hs_sum nc_sum * 10 ^ 2)"])
       (simp add: f py_round_f_def)
  have k4h: "\<exists>k. component_hyperscaler r = fl (of_int k / 10000)
             \<and> \<bar>of_int k / 10000 - hs_sum\<bar> \<le> 1 / 20000"
    using py_round_f_near [of hs_sum 4]
    by (intro exI [of _ "round_half_even (hs_sum * 10 ^ 4)"]) (simp add: ch py_round_f_def)
  have k4n: "\<exists>k. component_neocloud r = fl (of_int k / 10000)
             \<and> \<bar>of_int k / 10000 - nc_sum\<bar> \<le> 1 / 20000"
    using py_round_f_near [of nc_sum 4]
    by (intro exI [of _ "round_half_even (nc_sum * 10 ^ 4)"]) (simp add: cn py_round_f_def)
  have g: "fst (push_to_supabase env store r) \<longrightarrow>
           validate_price (py_round_f (fadd hs_sum nc_sum) 2) (take 1 (t4_index_prices store))"
    using push_accepts_validated [of env store r] by (simp add: f)
  have w: "t4_index_prices (snd (push_to_supabase env store r)) = t4_index_prices store
          \<or> (\<exists>row. t4_index_prices (snd (push_to_supabase env store r))
                      = row # t4_index_prices store
                \<and> index_price row = py_round_f (fadd hs_sum nc_sum) 2
                \<and> hyperscaler_component row = py_round_f hs_sum 4
                \<and> neocloud_component row = py_round_f nc_sum 4)"
    using push_index_rows [of env store r] by (simp add: f ch cn)
  have o: "\<exists>a. main_submitted (Some a) csv_price \<noteq> Some (price_scaled (final_index_price r))"
  proof (cases "price_scaled (final_index_price r) = 1000000000000000000")
    case True
    then have "main_submitted (Some 2) csv_price \<noteq> Some (price_scaled (final_index_price r))"
      unfolding oracle_two_prices by simp
    then show ?thesis by (rule exI)
  next
    case False
    then have "main_submitted (Some 1) csv_price \<noteq> Some (price_scaled (final_index_price r))"
      unfolding oracle_two_prices by simp
    then show ?thesis by (rule exI)
  qed
  have "\<exists>ws wu hs_sum nc_sum.
      hs_sums_f prices hyperscalers = (ws, wu)
      \<and> normalize_hs_sum_f ws wu = Inr hs_sum
      \<and> nc_sum_f (nc_providers prices) = Inr nc_sum
      \<and> final_index_price r = py_round_f (fadd hs_sum nc_sum) 2
      \<and> component_hyperscaler r = py_round_f hs_sum 4
      \<and> component_neocloud r = py_round_f nc_sum 4
      \<and> (\<exists>k. final_index_price r = fl (of_int k / 100)
             \<and> \<bar>of_int k / 100 - fadd hs_sum nc_sum\<bar> \<le> 1 / 200)
      \<and> (\<exists>k. component_hyperscaler r = fl (of_int k / 10000)
             \<and> \<bar>of_int k / 10000 - hs_sum\<bar> \<le> 1 / 20000)
      \<and> (\<exists>k. component_neocloud r = fl (of_int k / 10000)
             \<and> \<bar>of_int k / 10000 - nc_sum\<bar> \<le> 1 / 20000)
      \<and> (fst (push_to_supabase env store r) \<longrightarrow>
           validate_price (py_round_f (fadd hs_sum nc_sum) 2) (take 1 (t4_index_prices store)))
      \<and> (t4_index_prices (snd (push_to_supabase env store r)) = t4_index_prices store
          \<or> (\<exists>row. t4_index_prices (snd (push_to_supabase env store r))
                      = row # t4_index_prices store
                \<and> index_price row = py_round_f (fadd hs_sum nc_sum) 2
                \<and> hyperscaler_component row = py_round_f hs_sum 4
                \<and> neocloud_component row = py_round_f nc_sum 4))"
    by (intro exI [of _ ws] exI [of _ wu] exI [of _ hs_sum] exI [of _ nc_sum] conjI
        s h n f ch cn k2 k4h k4n g w)
  then show ?thesis using o by (rule conjI)
qed

text \<open>
  The scenario of section 8 of the specification: three hyperscalers and one neocloud. The
  raw sums are the doubles printed as 0.4235400000000001 and 0.041999999999999996, their
  sum 0.46554000000000006; the report carries 0.47 and the components 0.4235 and 0.042.
\<close>

lemma golden_strings:
  "find_price [(''AWS'', 1.00), (''Azure'', 1.50), (''GCP'', 1.20), (''Vast.ai'', 0.12)] (normalize_provider_name ''AWS'') = Some 1.00"
  "find_price [(''AWS'', 1.00), (''Azure'', 1.50), (''GCP'', 1.20), (''Vast.ai'', 0.12)] (normalize_provider_name ''Azure'') = Some 1.50"
  "find_price [(''AWS'', 1.00), (''Azure'', 1.50), (''GCP'', 1.20), (''Vast.ai'', 0.12)] (normalize_provider_name ''GCP'') = Some 1.20"
  "nc_providers [(''AWS'', 1.00), (''Azure'', 1.50), (''GCP'', 1.20), (''Vast.ai'', 0.12)] = [(''Vast.ai'', 0.12)]"
  "neocloud_data (nc_collect [(''Vast.ai'', 0.12)])
     = [(''Vast.ai'', \<lparr>nc_price = 0.12, nc_raw_weight = 0.15\<rparr>)]"
  by code_simp+

lemma golden_steps:
  "hs_step_f [(''AWS'', 1.00), (''Azure'', 1.50), (''GCP'', 1.20), (''Vast.ai'', 0.12)] (0, 0) ''AWS''
     = (6828898186974433 / 36028797018963968, 8106479329266893 / 18014398509481984)"
  "hs_step_f [(''AWS'', 1.00), (''Azure'', 1.50), (''GCP'', 1.20), (''Vast.ai'', 0.12)]
     (6828898186974433 / 36028797018963968, 8106479329266893 / 18014398509481984) ''Azure''
     = (5943670644218487 / 18014398509481984, 3 / 4)"
  "hs_step_f [(''AWS'', 1.00), (''Azure'', 1.50), (''GCP'', 1.20), (''Vast.ai'', 0.12)] (5943670644218487 / 18014398509481984, 3 / 4) ''GCP''
     = (7629818344706001 / 18014398509481984, 1)"
  unfolding hs_step_f_def prod.case Let_def golden_strings option.case
  by (simp_all add: dict_get_def hyperscaler_discounts_def hyperscaler_weights_def
      discounted_weight_def full_price_weight_def hyperscaler_total_weight_def fl_eval)

lemma golden_hs_sums:
  "hs_sums_f [(''AWS'', 1.00), (''Azure'', 1.50), (''GCP'', 1.20), (''Vast.ai'', 0.12)] hyperscalers = (7629818344706001 / 18014398509481984, 1)"
  unfolding hs_sums_f_def hyperscalers_def foldl.simps golden_steps ..

lemma golden_nc_sum:
  "nc_sum_f [(''Vast.ai'', 0.12)] = Inr (3026418949592973 / 72057594037927936)"
  unfolding nc_sum_f_def nc_weight_used_f_def golden_strings
  by (simp add: vast_only_strings(3) dict_get_def neocloud_weights_def py_div_f_def
      neocloud_total_weight_def fl_eval)

lemma golden_rounded:
  "py_round_f (fadd (7629818344706001 / 18014398509481984)
                    (3026418949592973 / 72057594037927936)) 2 = fl 0.47"
  "py_round_f (7629818344706001 / 18014398509481984) 4 = fl 0.4235"
  "py_round_f (3026418949592973 / 72057594037927936) 4 = fl 0.042"
  "fadd (7629818344706001 / 18014398509481984) (3026418949592973 / 72057594037927936)
     = 2096605770526061 / 4503599627370496"
  by (simp_all add: py_round_f_def fl_eval)

theorem report_rounding_witness:
  "\<exists>r. compute_report ''2026-01-01 00:00:00'' [(''AWS'', 1.00), (''Azure'', 1.50), (''GCP'', 1.20), (''Vast.ai'', 0.12)] = Inr r
      \<and> hs_sums_f [(''AWS'', 1.00), (''Azure'', 1.50), (''GCP'', 1.20), (''Vast.ai'', 0.12)] hyperscalers = (7629818344706001 / 18014398509481984, 1)
      \<and> nc_sum_f (nc_providers [(''AWS'', 1.00), (''Azure'', 1.50), (''GCP'', 1.20), (''Vast.ai'', 0.12)]) = Inr (3026418949592973 / 72057594037927936)
      \<and> fadd (7629818344706001 / 18014398509481984) (3026418949592973 / 72057594037927936)
          = 2096605770526061 / 4503599627370496
      \<and> final_index_price r = fl 0.47
      \<and> component_hyperscaler r = fl 0.4235
      \<and> component_neocloud r = fl 0.042
      \<and> validate_price (fl 0.47) (take 1 (t4_index_prices (store_with_previous 0.50)))
      \<and> fst (push_to_supabase healthy_env (store_with_previous 0.50) r)
      \<and> map index_price
           (t4_index_prices (snd (push_to_supabase healthy_env (store_with_previous 0.50) r)))
          = [fl 0.47, 0.50]"
proof -
  obtain r where g: "compute_report ''2026-01-01 00:00:00'' [(''AWS'', 1.00), (''Azure'', 1.50), (''GCP'', 1.20), (''Vast.ai'', 0.12)] = Inr r"
    using compute_report_total by blast
  from report_rounding [OF g, of healthy_env "store_with_previous 0.50" None]
  obtain ws wu hs_sum nc_sum where r:
    "hs_sums_f [(''AWS'', 1.00), (''Azure'', 1.50), (''GCP'', 1.20), (''Vast.ai'', 0.12)] hyperscalers = (ws, wu)"
    "normalize_hs_sum_f ws wu = Inr hs_sum"
    "nc_sum_f (nc_providers [(''AWS'', 1.00), (''Azure'', 1.50), (''GCP'', 1.20), (''Vast.ai'', 0.12)]) = Inr nc_sum"
    "final_index_price r = py_round_f (fadd hs_sum nc_sum) 2"
    "component_hyperscaler r = py_round_f hs_sum 4"
    "component_neocloud r = py_round_f nc_sum 4"
    by blast
  have ws: "ws = 7629818344706001 / 18014398509481984" and wu: "wu = 1"
    using r(1) unfolding golden_hs_sums by simp_all
  have hs: "hs_sum = 7629818344706001 / 18014398509481984"
    using r(2) unfolding ws wu by (simp add: normalize_hs_sum_f_def)
  have n0: "nc_sum_f (nc_providers [(''AWS'', 1.00), (''Azure'', 1.50), (''GCP'', 1.20), (''Vast.ai'', 0.12)]) = Inr (3026418949592973 / 72057594037927936)"
    unfolding golden_strings(4) by (rule golden_nc_sum)
  have nc: "nc_sum = 3026418949592973 / 72057594037927936"
    using r(3) unfolding n0 by simp
  have 1: "final_index_price r = fl 0.47"
    using r(4) unfolding hs nc golden_rounded(1) .
  have 2: "component_hyperscaler r = fl 0.4235"
    using r(5) unfolding hs golden_rounded(2) .
  have 3: "component_neocloud r = fl 0.042"
    using r(6) unfolding nc golden_rounded(3) .
  have v: "validate_price (fl 0.47) (take 1 (t4_index_prices (store_with_previous 0.50)))"
    by (simp add: validate_price_iff store_with_previous_def fl_eval)
  have v': "validate_price (final_index_price r)
      (take 1 (t4_index_prices (store_with_previous 0.50)))"
    unfolding 1 by (rule v)
  note p = push_healthy [OF v']
  have 5: "fst (push_to_supabase healthy_env (store_with_previous 0.50) r)"
    using p by (rule conjunct1)
  have 6: "map index_price
           (t4_index_prices (snd (push_to_supabase healthy_env (store_with_previous 0.50) r)))
          = [fl 0.47, 0.50]"
    using p unfolding 1 by (simp add: store_with_previous_def)
  show ?thesis
    by (rule exI [of _ r])
       (intro conjI g golden_hs_sums n0 golden_rounded(4) 1 2 3 v 5 6)
qed

section \<open>Price strings\<close>

text \<open>
  A string without any digit or dot parses to 0.0 and its entry is skipped by the loop over
  the combined file; the example of the docstring parses to 0.55.
\<close>

lemma re_search_no_token: "\<forall>c\<in>set s. \<not> in_class c \<Longrightarrow> re_search s = None"
proof -
  assume "\<forall>c\<in>set s. \<not> in_class c"
  then have h: "dropWhile (\<lambda>c. \<not> in_class c) s = []"
    by (simp add: dropWhile_eq_Nil_conv)
  show ?thesis
    unfolding re_search_def h by simp
qed

lemma parse_price_no_token: "\<forall>c\<in>set s. \<not> in_class c \<Longrightarrow> parse_price s = Inr 0"
  by (simp add: parse_price_def re_search_no_token)

lemma load_combined_drops_no_token:
  "\<forall>c\<in>set price_val. \<not> in_class c \<Longrightarrow>
   load_combined ((provider, price_val) # rest) prices = load_combined rest prices"
  by (simp add: parse_price_no_token)

lemma parse_price_example: "parse_price ''$0.55/hr'' = Inr 0.55"
  by code_simp

text \<open>
  Claim C7 asks that a price string without a numeric token is dropped silently and never
  raises. The pattern \<open>[0-9.]+\<close> also matches a run of dots: in \<open>N.A.\<close> the match is a
  single dot, \<open>float\<close> raises \<open>ValueError\<close>, the loop over the combined file ends there, and
  the valid AWS entry after it is lost with it, so that the run finds no pricing data. The
  loop over the per-source files skips only the file with that string and loads the next.
\<close>

theorem parse_price_lone_dot:
  "re_search ''N.A.'' = Some ''.''
   \<and> parse_price ''N.A.'' = Inl ValueError
   \<and> load_combined [(''Vast.ai'', ''N.A.''), (''AWS'', ''$1.01/hr'')] [] = ([], Some ValueError)
   \<and> load_combined [(''AWS'', ''$1.01/hr'')] [] = ([(''AWS'', 1.01)], None)
   \<and> calculate_index ''2026-01-01 00:00:00''
        (Prices [(''Vast.ai'', ''N.A.''), (''AWS'', ''$1.01/hr'')]) [] = Inr None
   \<and> load_from_individual_files
        [\<lparr>file_name = ''vastai_t4_prices.json'', stem_title = ''Vastai'',
          content = Json (Some ''Vast.ai'') (Some [(''T4'', ''N.A.'')])\<rparr>,
         \<lparr>file_name = ''aws_t4_prices.json'', stem_title = ''Aws'',
          content = Json (Some ''AWS'') (Some [(''g4dn.xlarge'', ''$1.01/hr'')])\<rparr>]
       = [(''AWS'', 1.01)]"
  by code_simp

end
